theory Spec2Isabelle
  imports Main "HOL-Library.Word"
begin

section \<open>The storage schema (the SQL migration)\<close>

text \<open>
  The slot swapper is a browser client over a hosted PostgreSQL database. The client's
  handlers (\<open>onSubmit\<close>, \<open>toggleSwappable\<close>, \<open>deleteEvent\<close>, \<open>fetchAvailableSlots\<close>,
  \<open>requestSwap\<close>, \<open>handleResponse\<close>) issue one statement per call of the storage client;
  the migration declares the tables, their constraints and the row-level security
  policies under which those statements run. Both halves are modelled: the tables as
  lists of records inside one \<open>db\<close> record that every handler takes and returns, the
  policies as predicates on the acting user's id (\<open>auth.uid()\<close>) and a row.

  A \<open>uuid\<close> is a natural number. Instants (\<open>timestamptz\<close>, the time value of a JavaScript
  \<open>Date\<close>) are integers. A JavaScript string is the list of its UTF-16 code units, which
  is what \<open>length\<close> counts there. The bookkeeping columns \<open>created_at\<close> and \<open>updated_at\<close>
  and the trigger that refreshes \<open>updated_at\<close> are left out of the rows.
\<close>

type_synonym uuid = nat
type_synonym timestamptz = int
type_synonym js_string = "16 word list"

datatype event_status = BUSY | SWAPPABLE | SWAP_PENDING

datatype swap_status = PENDING | ACCEPTED | REJECTED

record profile =
  p_id :: uuid
  p_name :: js_string
  p_email :: js_string

record event =
  e_id :: uuid
  e_user_id :: uuid
  e_title :: js_string
  e_start_time :: timestamptz
  e_end_time :: timestamptz
  e_status :: event_status

record swap_request =
  r_id :: uuid
  r_requester_id :: uuid
  r_requester_event_id :: uuid
  r_owner_id :: uuid
  r_owner_event_id :: uuid
  r_status :: swap_status

record db =
  profiles :: "profile list"
  events :: "event list"
  swap_requests :: "swap_request list"

text \<open>The errors with which the database rejects a statement.\<close>

datatype pg_error =
    Rls_violation
  | Check_violation
  | Unique_violation
  | Foreign_key_violation

subsection \<open>Constraints and policies of \<open>events\<close>\<close>

text \<open>\<open>CONSTRAINT valid_time_range CHECK (end_time > start_time)\<close>\<close>

definition valid_time_range :: "event \<Rightarrow> bool" where
  "valid_time_range e = (e_end_time e > e_start_time e)"

text \<open>
  The five policies of the table, each named as in the migration; the first argument is
  \<open>auth.uid()\<close>. A policy declared with \<open>USING\<close> only, for \<open>UPDATE\<close>, is also the check
  of the new row.
\<close>

definition users_can_view_own_events :: "uuid \<Rightarrow> event \<Rightarrow> bool" where
  "users_can_view_own_events uid e = (uid = e_user_id e)"

definition users_can_view_swappable_events_from_others :: "uuid \<Rightarrow> event \<Rightarrow> bool" where
  "users_can_view_swappable_events_from_others uid e =
     (e_status e = SWAPPABLE \<and> uid \<noteq> e_user_id e)"

definition users_can_insert_own_events :: "uuid \<Rightarrow> event \<Rightarrow> bool" where
  "users_can_insert_own_events uid e = (uid = e_user_id e)"

definition users_can_update_own_events :: "uuid \<Rightarrow> event \<Rightarrow> bool" where
  "users_can_update_own_events uid e = (uid = e_user_id e)"

definition users_can_delete_own_events :: "uuid \<Rightarrow> event \<Rightarrow> bool" where
  "users_can_delete_own_events uid e = (uid = e_user_id e)"

text \<open>Permissive policies for one command are combined with \<open>OR\<close>.\<close>

definition events_select_policy :: "uuid \<Rightarrow> event \<Rightarrow> bool" where
  "events_select_policy uid e =
     (users_can_view_own_events uid e \<or> users_can_view_swappable_events_from_others uid e)"

subsection \<open>Policies of \<open>swap_requests\<close>\<close>

definition users_can_view_their_swap_requests :: "uuid \<Rightarrow> swap_request \<Rightarrow> bool" where
  "users_can_view_their_swap_requests uid r =
     (uid = r_requester_id r \<or> uid = r_owner_id r)"

definition users_can_create_swap_requests :: "uuid \<Rightarrow> swap_request \<Rightarrow> bool" where
  "users_can_create_swap_requests uid r = (uid = r_requester_id r)"

definition owners_can_update_swap_requests :: "uuid \<Rightarrow> swap_request \<Rightarrow> bool" where
  "owners_can_update_swap_requests uid r = (uid = r_owner_id r)"

section \<open>Statements\<close>

text \<open>
  Every call of the storage client is one statement in a transaction of its own: it
  either returns the new database or an error and no change. Under row-level security
  \<^item> a \<open>SELECT\<close> returns the rows that pass a \<open>SELECT\<close> policy;
  \<^item> an \<open>INSERT\<close> is an error when the new row fails the \<open>WITH CHECK\<close> of the \<open>INSERT\<close>
    policy;
  \<^item> an \<open>UPDATE\<close> or \<open>DELETE\<close> with a \<open>WHERE\<close> clause touches the rows that match the
    clause and pass the command's \<open>USING\<close> policy and a \<open>SELECT\<close> policy; the other rows
    are suppressed silently, without an error, so a statement that touches no row
    succeeds; an \<open>UPDATE\<close> is an error when a new row fails the check;
  \<^item> foreign keys are checked, and \<open>ON DELETE CASCADE\<close> is carried out, without regard to
    the policies.
\<close>

definition profile_ids :: "db \<Rightarrow> uuid set" where
  "profile_ids d = p_id ` set (profiles d)"

definition event_ids :: "db \<Rightarrow> uuid set" where
  "event_ids d = e_id ` set (events d)"

definition select_events :: "uuid \<Rightarrow> db \<Rightarrow> event list" where
  "select_events uid d = filter (events_select_policy uid) (events d)"

text \<open>
  \<open>INSERT INTO events\<close>. The payload of the client names every column but \<open>id\<close>, which
  is \<open>DEFAULT gen_random_uuid()\<close>: the generated value is the argument \<open>new_id\<close>. The
  column \<open>status\<close> is \<open>DEFAULT 'BUSY'\<close> when the payload has none.
\<close>

record event_insert =
  i_user_id :: uuid
  i_title :: js_string
  i_start_time :: timestamptz
  i_end_time :: timestamptz
  i_status :: "event_status option"

definition new_event :: "uuid \<Rightarrow> event_insert \<Rightarrow> event" where
  "new_event new_id p =
     \<lparr> e_id = new_id, e_user_id = i_user_id p, e_title = i_title p,
       e_start_time = i_start_time p, e_end_time = i_end_time p,
       e_status = (case i_status p of None \<Rightarrow> BUSY | Some s \<Rightarrow> s) \<rparr>"

definition insert_event :: "uuid \<Rightarrow> uuid \<Rightarrow> event_insert \<Rightarrow> db \<Rightarrow> pg_error + db" where
  "insert_event uid new_id p d =
     (let row = new_event new_id p in
      if \<not> users_can_insert_own_events uid row then Inl Rls_violation
      else if \<not> valid_time_range row then Inl Check_violation
      else if new_id \<in> event_ids d then Inl Unique_violation
      else if e_user_id row \<notin> profile_ids d then Inl Foreign_key_violation
      else Inr (d\<lparr>events := events d @ [row]\<rparr>))"

text \<open>
  \<open>UPDATE events SET ... WHERE id = target\<close>. The client's payloads set \<open>status\<close>, and
  in one place \<open>user_id\<close> too; they never set the times, so \<open>valid_time_range\<close>, which
  holds of every stored row, is not evaluated again. The foreign key of \<open>user_id\<close> is
  checked when the payload sets that column.
\<close>

record event_update =
  u_user_id :: "uuid option"
  u_status :: "event_status option"

definition apply_event_update :: "event_update \<Rightarrow> event \<Rightarrow> event" where
  "apply_event_update u e =
     e\<lparr> e_user_id := (case u_user_id u of None \<Rightarrow> e_user_id e | Some x \<Rightarrow> x),
        e_status := (case u_status u of None \<Rightarrow> e_status e | Some s \<Rightarrow> s) \<rparr>"

definition event_updatable :: "uuid \<Rightarrow> uuid \<Rightarrow> event \<Rightarrow> bool" where
  "event_updatable uid target e =
     (e_id e = target \<and> users_can_update_own_events uid e \<and> events_select_policy uid e)"

definition update_events :: "uuid \<Rightarrow> event_update \<Rightarrow> uuid \<Rightarrow> db \<Rightarrow> pg_error + db" where
  "update_events uid u target d =
     (let touched = filter (event_updatable uid target) (events d) in
      if list_ex (\<lambda>e. \<not> (users_can_update_own_events uid (apply_event_update u e)
                          \<and> events_select_policy uid (apply_event_update u e))) touched
        then Inl Rls_violation
      else if list_ex (\<lambda>e. u_user_id u \<noteq> None
                           \<and> e_user_id (apply_event_update u e) \<notin> profile_ids d) touched
        then Inl Foreign_key_violation
      else Inr (d\<lparr>events :=
                  map (\<lambda>e. if event_updatable uid target e then apply_event_update u e else e)
                      (events d)\<rparr>))"

text \<open>
  \<open>DELETE FROM events WHERE id = target\<close>. Both event columns of \<open>swap_requests\<close>
  reference \<open>events(id) ON DELETE CASCADE\<close>: the requests that name a deleted event go
  with it.
\<close>

definition event_deletable :: "uuid \<Rightarrow> uuid \<Rightarrow> event \<Rightarrow> bool" where
  "event_deletable uid target e =
     (e_id e = target \<and> users_can_delete_own_events uid e \<and> events_select_policy uid e)"

definition delete_events :: "uuid \<Rightarrow> uuid \<Rightarrow> db \<Rightarrow> pg_error + db" where
  "delete_events uid target d =
     (let gone = map e_id (filter (event_deletable uid target) (events d)) in
      Inr (d\<lparr> events := filter (\<lambda>e. \<not> event_deletable uid target e) (events d),
              swap_requests :=
                filter (\<lambda>r. r_requester_event_id r \<notin> set gone \<and> r_owner_event_id r \<notin> set gone)
                       (swap_requests d) \<rparr>))"

text \<open>\<open>INSERT INTO swap_requests\<close>, with its four foreign keys.\<close>

definition insert_swap_request :: "uuid \<Rightarrow> swap_request \<Rightarrow> db \<Rightarrow> pg_error + db" where
  "insert_swap_request uid row d =
     (if \<not> users_can_create_swap_requests uid row then Inl Rls_violation
      else if r_id row \<in> r_id ` set (swap_requests d) then Inl Unique_violation
      else if r_requester_id row \<notin> profile_ids d \<or> r_owner_id row \<notin> profile_ids d
              \<or> r_requester_event_id row \<notin> event_ids d \<or> r_owner_event_id row \<notin> event_ids d
        then Inl Foreign_key_violation
      else Inr (d\<lparr>swap_requests := swap_requests d @ [row]\<rparr>))"

text \<open>\<open>UPDATE swap_requests SET status = s WHERE id = target\<close>: no key column changes.\<close>

definition request_updatable :: "uuid \<Rightarrow> uuid \<Rightarrow> swap_request \<Rightarrow> bool" where
  "request_updatable uid target r =
     (r_id r = target \<and> owners_can_update_swap_requests uid r
      \<and> users_can_view_their_swap_requests uid r)"

definition update_swap_requests :: "uuid \<Rightarrow> swap_status \<Rightarrow> uuid \<Rightarrow> db \<Rightarrow> pg_error + db" where
  "update_swap_requests uid s target d =
     Inr (d\<lparr>swap_requests :=
            map (\<lambda>r. if request_updatable uid target r then r\<lparr>r_status := s\<rparr> else r)
                (swap_requests d)\<rparr>)"

section \<open>The client\<close>

text \<open>
  A handler runs for the signed-in user \<open>uid\<close> (the pages load their data only once a
  user is present), takes the database and returns what the user is shown together with
  the database it leaves behind. A handler that throws in the middle has already
  committed its earlier statements, so the database is returned on failure too.
\<close>

datatype issue =
    Title_is_required
  | Title_too_long
  | Start_time_is_required
  | End_time_is_required
  | End_time_must_be_after_start_time

datatype feedback =
    Toast_success string
  | Toast_info string
  | Toast_error string
  | Toast_error_of pg_error
  | Form_errors "issue list"
  | No_feedback

subsection \<open>Dashboard: the event form\<close>

text \<open>
  The code units that \<open>String.prototype.trim\<close> strips: white space and line
  terminators.
\<close>

definition is_white_space :: "16 word \<Rightarrow> bool" where
  "is_white_space c =
     (c \<in> {0x0009, 0x000A, 0x000B, 0x000C, 0x000D, 0x0020, 0x00A0, 0x1680,
            0x2028, 0x2029, 0x202F, 0x205F, 0x3000, 0xFEFF}
      \<or> (0x2000 \<le> c \<and> c \<le> 0x200A))"

definition trim :: "js_string \<Rightarrow> js_string" where
  "trim s = rev (dropWhile is_white_space (rev (dropWhile is_white_space s)))"

record event_form =
  title :: js_string
  startTime :: js_string
  endTime :: js_string

text \<open>
  \<open>new Date(s)\<close> reads a string as an instant, or as the invalid date, whose time value
  is \<open>NaN\<close>. The reading itself belongs to the JavaScript engine: it is the parameter
  \<open>parse\<close> of the form's functions, with \<open>None\<close> for the invalid date. A comparison
  with \<open>NaN\<close> is false.
\<close>

fun date_gt :: "timestamptz option \<Rightarrow> timestamptz option \<Rightarrow> bool" where
  "date_gt (Some a) (Some b) = (a > b)"
| "date_gt _ _ = False"

text \<open>
  \<open>eventSchema\<close>: the three string checks, then the refinement on the object. The
  string checks do not abort the parse, so the refinement adds its issue to theirs.
  The result carries the trimmed title.
\<close>

definition eventSchema ::
  "(js_string \<Rightarrow> timestamptz option) \<Rightarrow> event_form \<Rightarrow> issue list + event_form" where
  "eventSchema parse input =
     (let t = trim (title input);
          data = input\<lparr>title := t\<rparr>;
          issues =
            (if length t < 1 then [Title_is_required] else [])
            @ (if length t > 100 then [Title_too_long] else [])
            @ (if length (startTime input) < 1 then [Start_time_is_required] else [])
            @ (if length (endTime input) < 1 then [End_time_is_required] else [])
            @ (if date_gt (parse (endTime data)) (parse (startTime data)) then []
               else [End_time_must_be_after_start_time])
      in if issues = [] then Inr data else Inl issues)"

text \<open>
  \<open>onSubmit\<close>. \<open>toISOString\<close> throws a \<open>RangeError\<close> on the invalid date, inside the
  \<open>try\<close>; the stored instant is the one read.
\<close>

definition onSubmit ::
  "(js_string \<Rightarrow> timestamptz option) \<Rightarrow> uuid \<Rightarrow> uuid \<Rightarrow> event_form \<Rightarrow> db \<Rightarrow> feedback \<times> db" where
  "onSubmit parse uid new_id data d =
     (case parse (startTime data) of
        None \<Rightarrow> (Toast_error ''Invalid time value'', d)
      | Some s \<Rightarrow>
     (case parse (endTime data) of
        None \<Rightarrow> (Toast_error ''Invalid time value'', d)
      | Some e \<Rightarrow>
     (case insert_event uid new_id
             \<lparr> i_user_id = uid, i_title = title data, i_start_time = s, i_end_time = e,
               i_status = Some BUSY \<rparr> d of
        Inl err \<Rightarrow> (Toast_error_of err, d)
      | Inr d' \<Rightarrow> (Toast_success ''Event created successfully'', d'))))"

text \<open>
  \<open>form.handleSubmit(onSubmit)\<close> with the schema as resolver: \<open>onSubmit\<close> runs on the
  parsed data only when the schema accepts the input; otherwise the issues are shown
  under the fields.
\<close>

definition handleSubmit ::
  "(js_string \<Rightarrow> timestamptz option) \<Rightarrow> uuid \<Rightarrow> uuid \<Rightarrow> event_form \<Rightarrow> db \<Rightarrow> feedback \<times> db" where
  "handleSubmit parse uid new_id input d =
     (case eventSchema parse input of
        Inl issues \<Rightarrow> (Form_errors issues, d)
      | Inr data \<Rightarrow> onSubmit parse uid new_id data d)"

subsection \<open>Dashboard: the event cards\<close>

definition fetchEvents :: "uuid \<Rightarrow> db \<Rightarrow> event list" where
  "fetchEvents uid d =
     sort_key e_start_time (filter (\<lambda>e. e_user_id e = uid) (select_events uid d))"

text \<open>
  \<open>toggleSwappable\<close> takes the event as the page holds it: the guard and the new
  status read that copy, the update goes to the row with its id.
\<close>

definition toLowerCase :: "event_status \<Rightarrow> string" where
  "toLowerCase s = (case s of BUSY \<Rightarrow> ''busy'' | SWAPPABLE \<Rightarrow> ''swappable''
                    | SWAP_PENDING \<Rightarrow> ''swap_pending'')"

definition toggleSwappable :: "uuid \<Rightarrow> event \<Rightarrow> db \<Rightarrow> feedback \<times> db" where
  "toggleSwappable uid ev d =
     (if e_status ev = SWAP_PENDING
        then (Toast_error ''Cannot modify event during pending swap'', d)
      else
        (let newStatus = (if e_status ev = BUSY then SWAPPABLE else BUSY) in
         case update_events uid \<lparr> u_user_id = None, u_status = Some newStatus \<rparr> (e_id ev) d of
           Inl err \<Rightarrow> (Toast_error ''Failed to update event'', d)
         | Inr d' \<Rightarrow> (Toast_success (''Event marked as '' @ toLowerCase newStatus), d')))"

definition deleteEvent :: "uuid \<Rightarrow> uuid \<Rightarrow> db \<Rightarrow> feedback \<times> db" where
  "deleteEvent uid eventId d =
     (case delete_events uid eventId d of
        Inl err \<Rightarrow> (Toast_error ''Failed to delete event'', d)
      | Inr d' \<Rightarrow> (Toast_success ''Event deleted'', d'))"

text \<open>
  The two buttons of a card are \<open>disabled\<close> while the card's event is \<open>SWAP_PENDING\<close>:
  a click on a disabled button calls nothing.
\<close>

definition toggle_button :: "uuid \<Rightarrow> event \<Rightarrow> db \<Rightarrow> feedback \<times> db" where
  "toggle_button uid ev d =
     (if e_status ev = SWAP_PENDING then (No_feedback, d) else toggleSwappable uid ev d)"

definition delete_button :: "uuid \<Rightarrow> event \<Rightarrow> db \<Rightarrow> feedback \<times> db" where
  "delete_button uid ev d =
     (if e_status ev = SWAP_PENDING then (No_feedback, d) else deleteEvent uid (e_id ev) d)"

subsection \<open>Marketplace\<close>

text \<open>
  A marketplace row is an event with the embedded row of its owner's profile
  (\<open>profiles:user_id (name, email)\<close>); every profile is visible to every user.
\<close>

type_synonym MarketplaceEvent = "event \<times> profile option"

definition embed_profile :: "db \<Rightarrow> event \<Rightarrow> MarketplaceEvent" where
  "embed_profile d e = (e, find (\<lambda>p. p_id p = e_user_id e) (profiles d))"

definition fetchAvailableSlots :: "uuid \<Rightarrow> db \<Rightarrow> MarketplaceEvent list" where
  "fetchAvailableSlots uid d =
     map (embed_profile d)
       (sort_key e_start_time
          (filter (\<lambda>e. e_user_id e \<noteq> uid)
             (filter (\<lambda>e. e_status e = SWAPPABLE) (select_events uid d))))"

definition fetchMySwappableSlots :: "uuid \<Rightarrow> db \<Rightarrow> event list" where
  "fetchMySwappableSlots uid d =
     sort_key e_start_time
       (filter (\<lambda>e. e_status e = SWAPPABLE)
          (filter (\<lambda>e. e_user_id e = uid) (select_events uid d)))"

text \<open>
  \<open>requestSwap\<close>: the insert and the two updates are three calls, each awaited and
  checked in turn. \<open>new_id\<close> is the id the database generates for the request.
\<close>

definition requestSwap ::
  "uuid \<Rightarrow> uuid \<Rightarrow> MarketplaceEvent option \<Rightarrow> uuid \<Rightarrow> db \<Rightarrow> feedback \<times> db" where
  "requestSwap uid new_id selectedSlot myEventId d =
     (case selectedSlot of
        None \<Rightarrow> (No_feedback, d)
      | Some slot \<Rightarrow>
     (case insert_swap_request uid
             \<lparr> r_id = new_id, r_requester_id = uid, r_requester_event_id = myEventId,
               r_owner_id = e_user_id (fst slot), r_owner_event_id = e_id (fst slot),
               r_status = PENDING \<rparr> d of
        Inl requestError \<Rightarrow> (Toast_error_of requestError, d)
      | Inr d1 \<Rightarrow>
     (case update_events uid \<lparr> u_user_id = None, u_status = Some SWAP_PENDING \<rparr> myEventId d1 of
        Inl updateError1 \<Rightarrow> (Toast_error_of updateError1, d1)
      | Inr d2 \<Rightarrow>
     (case update_events uid \<lparr> u_user_id = None, u_status = Some SWAP_PENDING \<rparr>
             (e_id (fst slot)) d2 of
        Inl updateError2 \<Rightarrow> (Toast_error_of updateError2, d2)
      | Inr d3 \<Rightarrow> (Toast_success ''Swap request sent!'', d3)))))"

subsection \<open>Requests\<close>

text \<open>
  A request as the page holds it: its id and status and the two embedded events, of
  which \<open>handleResponse\<close> reads the ids. The page's type declares both embedded events
  present, and the model follows the declaration.
\<close>

record event_ref =
  ref_id :: uuid
  ref_title :: js_string
  ref_start_time :: timestamptz
  ref_end_time :: timestamptz

record SwapRequest =
  v_id :: uuid
  v_status :: swap_status
  requester_event :: event_ref
  owner_event :: event_ref

definition handleResponse :: "uuid \<Rightarrow> SwapRequest \<Rightarrow> bool \<Rightarrow> db \<Rightarrow> feedback \<times> db" where
  "handleResponse uid request accept d =
     (if accept then
        (case update_events uid
                \<lparr> u_user_id = Some (ref_id (requester_event request)), u_status = Some BUSY \<rparr>
                (ref_id (owner_event request)) d of
           Inl swap1Error \<Rightarrow> (Toast_error_of swap1Error, d)
         | Inr d1 \<Rightarrow>
        (case update_events uid
                \<lparr> u_user_id = Some (ref_id (owner_event request)), u_status = Some BUSY \<rparr>
                (ref_id (requester_event request)) d1 of
           Inl swap2Error \<Rightarrow> (Toast_error_of swap2Error, d1)
         | Inr d2 \<Rightarrow>
        (case update_swap_requests uid ACCEPTED (v_id request) d2 of
           Inl updateError \<Rightarrow> (Toast_error_of updateError, d2)
         | Inr d3 \<Rightarrow> (Toast_success ''Swap accepted! Events have been exchanged.'', d3))))
      else
        (case update_events uid \<lparr> u_user_id = None, u_status = Some SWAPPABLE \<rparr>
                (ref_id (owner_event request)) d of
           Inl revert1Error \<Rightarrow> (Toast_error_of revert1Error, d)
         | Inr d1 \<Rightarrow>
        (case update_events uid \<lparr> u_user_id = None, u_status = Some SWAPPABLE \<rparr>
                (ref_id (requester_event request)) d1 of
           Inl revert2Error \<Rightarrow> (Toast_error_of revert2Error, d1)
         | Inr d2 \<Rightarrow>
        (case update_swap_requests uid REJECTED (v_id request) d2 of
           Inl updateError \<Rightarrow> (Toast_error_of updateError, d2)
         | Inr d3 \<Rightarrow> (Toast_info ''Swap request rejected.'', d3)))))"

section \<open>The invariant of the specification\<close>

text \<open>
  The requests in \<open>PENDING\<close> status that name an event, as the requester's or as the
  owner's; and the invariant: an event is \<open>SWAP_PENDING\<close> exactly when one such request
  names it.
\<close>

definition pending_refs :: "db \<Rightarrow> uuid \<Rightarrow> swap_request list" where
  "pending_refs d x =
     filter (\<lambda>r. r_status r = PENDING \<and> (r_requester_event_id r = x \<or> r_owner_event_id r = x))
            (swap_requests d)"

definition swap_invariant :: "db \<Rightarrow> bool" where
  "swap_invariant d =
     list_all (\<lambda>e. (e_status e = SWAP_PENDING) = (length (pending_refs d (e_id e)) = 1))
              (events d)"

section \<open>A worked scenario\<close>

text \<open>
  Two users, Alice and Bob, each with one slot. In \<open>db_swappable\<close> both slots are offered.
  \<open>db_requested\<close> is the database after Alice has asked for Bob's slot against hers
  through \<open>requestSwap\<close>; \<open>db_both_pending\<close> is the state the specification expects at
  that point, with both slots \<open>SWAP_PENDING\<close>. \<open>incoming\<close> is the request as Bob's
  page holds it. \<open>read_digit\<close> stands in for the engine's reading of dates in the
  examples of the form: it reads the strings \<open>1\<close> and \<open>2\<close> and nothing else.
\<close>

definition alice :: profile where
  "alice = \<lparr> p_id = 1, p_name = [0x41], p_email = [0x61] \<rparr>"

definition bob :: profile where
  "bob = \<lparr> p_id = 2, p_name = [0x42], p_email = [0x62] \<rparr>"

definition slot_a :: event where
  "slot_a = \<lparr> e_id = 10, e_user_id = 1, e_title = [0x41], e_start_time = 100,
              e_end_time = 200, e_status = SWAPPABLE \<rparr>"

definition slot_b :: event where
  "slot_b = \<lparr> e_id = 20, e_user_id = 2, e_title = [0x42], e_start_time = 300,
              e_end_time = 400, e_status = SWAPPABLE \<rparr>"

definition db_swappable :: db where
  "db_swappable = \<lparr> profiles = [alice, bob], events = [slot_a, slot_b], swap_requests = [] \<rparr>"

definition request_100 :: swap_request where
  "request_100 = \<lparr> r_id = 100, r_requester_id = 1, r_requester_event_id = 10,
                   r_owner_id = 2, r_owner_event_id = 20, r_status = PENDING \<rparr>"

definition db_requested :: db where
  "db_requested = \<lparr> profiles = [alice, bob],
                    events = [slot_a\<lparr>e_status := SWAP_PENDING\<rparr>, slot_b],
                    swap_requests = [request_100] \<rparr>"

definition db_both_pending :: db where
  "db_both_pending = \<lparr> profiles = [alice, bob],
                       events = [slot_a\<lparr>e_status := SWAP_PENDING\<rparr>,
                                 slot_b\<lparr>e_status := SWAP_PENDING\<rparr>],
                       swap_requests = [request_100] \<rparr>"

definition incoming :: SwapRequest where
  "incoming = \<lparr> v_id = 100, v_status = PENDING,
      requester_event =
        \<lparr> ref_id = 10, ref_title = [0x41], ref_start_time = 100, ref_end_time = 200 \<rparr>,
      owner_event =
        \<lparr> ref_id = 20, ref_title = [0x42], ref_start_time = 300, ref_end_time = 400 \<rparr> \<rparr>"

definition read_digit :: "js_string \<Rightarrow> timestamptz option" where
  "read_digit s = (if s = [0x31] then Some 1 else if s = [0x32] then Some 2 else None)"

section \<open>What the statements do\<close>

lemmas policy_defs =
  users_can_view_own_events_def users_can_view_swappable_events_from_others_def
  users_can_insert_own_events_def users_can_update_own_events_def
  users_can_delete_own_events_def events_select_policy_def
  users_can_view_their_swap_requests_def users_can_create_swap_requests_def
  owners_can_update_swap_requests_def

lemmas scenario_defs =
  alice_def bob_def slot_a_def slot_b_def db_swappable_def request_100_def
  db_requested_def db_both_pending_def incoming_def

text \<open>Whoever may update or delete a row may also see it: the rows a user can touch are their own.\<close>

lemma event_updatable_iff:
  "event_updatable uid target e = (e_id e = target \<and> e_user_id e = uid)"
  by (auto simp: event_updatable_def policy_defs)

lemma event_deletable_iff:
  "event_deletable uid target e = (e_id e = target \<and> e_user_id e = uid)"
  by (auto simp: event_deletable_def policy_defs)

lemma request_updatable_iff:
  "request_updatable uid target r = (r_id r = target \<and> r_owner_id r = uid)"
  by (auto simp: request_updatable_def policy_defs)

text \<open>An update of the status alone cannot fail: it changes the user's own rows with that id.\<close>

lemma update_events_status:
  "update_events uid \<lparr> u_user_id = None, u_status = Some s \<rparr> target d =
     Inr (d\<lparr>events :=
            map (\<lambda>e. if e_id e = target \<and> e_user_id e = uid then e\<lparr>e_status := s\<rparr> else e)
                (events d)\<rparr>)"
  by (auto simp: update_events_def event_updatable_iff apply_event_update_def policy_defs
      list_ex_iff)

lemma update_swap_requests_eq:
  "update_swap_requests uid s target d =
     Inr (d\<lparr>swap_requests :=
            map (\<lambda>r. if r_id r = target \<and> r_owner_id r = uid then r\<lparr>r_status := s\<rparr> else r)
                (swap_requests d)\<rparr>)"
  by (simp add: update_swap_requests_def request_updatable_iff)

lemma delete_events_eq:
  "delete_events uid target d =
     Inr (d\<lparr> events := filter (\<lambda>e. \<not> (e_id e = target \<and> e_user_id e = uid)) (events d),
             swap_requests :=
               (if \<exists>e \<in> set (events d). e_id e = target \<and> e_user_id e = uid
                then filter (\<lambda>r. r_requester_event_id r \<noteq> target \<and> r_owner_event_id r \<noteq> target)
                       (swap_requests d)
                else swap_requests d) \<rparr>)"
proof (cases "\<exists>e \<in> set (events d). e_id e = target \<and> e_user_id e = uid")
  case True
  then have "set (map e_id (filter (event_deletable uid target) (events d))) = {target}"
    by (auto simp: event_deletable_iff)
  with True show ?thesis
    by (simp add: delete_events_def event_deletable_iff Let_def del: set_map set_filter)
next
  case False
  then have "filter (event_deletable uid target) (events d) = []"
    by (auto simp: event_deletable_iff filter_empty_conv)
  moreover from False
  have "filter (\<lambda>e. \<not> (e_id e = target \<and> e_user_id e = uid)) (events d) = events d"
    by (auto simp: filter_id_conv)
  ultimately show ?thesis using False
    by (auto simp: delete_events_def event_deletable_iff)
qed

text \<open>The insert of a request row that names the acting user as requester.\<close>

lemma insert_swap_request_own:
  "insert_swap_request uid
      \<lparr> r_id = new_id, r_requester_id = uid, r_requester_event_id = mine,
        r_owner_id = owner, r_owner_event_id = theirs, r_status = s \<rparr> d =
     (if new_id \<in> r_id ` set (swap_requests d) then Inl Unique_violation
      else if uid \<in> profile_ids d \<and> owner \<in> profile_ids d
              \<and> mine \<in> event_ids d \<and> theirs \<in> event_ids d
        then Inr (d\<lparr>swap_requests := swap_requests d @
                    [\<lparr> r_id = new_id, r_requester_id = uid, r_requester_event_id = mine,
                       r_owner_id = owner, r_owner_event_id = theirs, r_status = s \<rparr>]\<rparr>)
      else Inl Foreign_key_violation)"
  by (auto simp: insert_swap_request_def policy_defs)

text \<open>
  No update of \<open>events\<close> that the database accepts changes the owner of a row: the row
  must be the user's own before the update and after it. So no run of \<open>handleResponse\<close>
  changes the owner of any event.
\<close>

lemma update_events_keeps_owners:
  "update_events uid u target d = Inr d' \<Longrightarrow>
     map e_user_id (events d') = map e_user_id (events d)"
  by (auto simp: update_events_def event_updatable_iff apply_event_update_def policy_defs
      list_ex_iff Let_def split: if_splits option.splits)

lemma handleResponse_keeps_owners:
  "map e_user_id (events (snd (handleResponse uid request accept d))) = map e_user_id (events d)"
  by (auto simp: handleResponse_def update_swap_requests_def split: sum.splits
      dest!: update_events_keeps_owners)

text \<open>Under the primary key of \<open>events\<close>, a stored row is known by its id.\<close>

lemma same_id_same_row:
  "distinct (map e_id xs) \<Longrightarrow> x \<in> set xs \<Longrightarrow> y \<in> set xs \<Longrightarrow> e_id x = e_id y \<Longrightarrow> x = y"
  by (meson distinct_map inj_on_eq_iff)


section \<open>What the handlers do\<close>

lemma toggleSwappable_eq:
  "toggleSwappable uid ev d =
     (if e_status ev = SWAP_PENDING
        then (Toast_error ''Cannot modify event during pending swap'', d)
      else (Toast_success
              (''Event marked as '' @ toLowerCase (if e_status ev = BUSY then SWAPPABLE else BUSY)),
            d\<lparr>events :=
               map (\<lambda>e. if e_id e = e_id ev \<and> e_user_id e = uid
                         then e\<lparr>e_status := (if e_status ev = BUSY then SWAPPABLE else BUSY)\<rparr>
                         else e)
                   (events d)\<rparr>))"
  by (simp add: toggleSwappable_def update_events_status Let_def)

lemma deleteEvent_eq:
  "deleteEvent uid eventId d =
     (Toast_success ''Event deleted'',
      d\<lparr> events := filter (\<lambda>e. \<not> (e_id e = eventId \<and> e_user_id e = uid)) (events d),
          swap_requests :=
            (if \<exists>e \<in> set (events d). e_id e = eventId \<and> e_user_id e = uid
             then filter (\<lambda>r. r_requester_event_id r \<noteq> eventId \<and> r_owner_event_id r \<noteq> eventId)
                    (swap_requests d)
             else swap_requests d) \<rparr>)"
  by (simp add: deleteEvent_def delete_events_eq)

lemma requestSwap_eq:
  "requestSwap uid new_id (Some slot) myEventId d =
     (case insert_swap_request uid
             \<lparr> r_id = new_id, r_requester_id = uid, r_requester_event_id = myEventId,
               r_owner_id = e_user_id (fst slot), r_owner_event_id = e_id (fst slot),
               r_status = PENDING \<rparr> d of
        Inl err \<Rightarrow> (Toast_error_of err, d)
      | Inr d1 \<Rightarrow>
          (Toast_success ''Swap request sent!'',
           d1\<lparr>events :=
                map (\<lambda>e. if e_id e = e_id (fst slot) \<and> e_user_id e = uid
                          then e\<lparr>e_status := SWAP_PENDING\<rparr> else e)
                  (map (\<lambda>e. if e_id e = myEventId \<and> e_user_id e = uid
                            then e\<lparr>e_status := SWAP_PENDING\<rparr> else e)
                     (events d1))\<rparr>))"
  by (simp add: requestSwap_def update_events_status split: sum.splits)

lemma reject_eq:
  "handleResponse uid request False d =
     (Toast_info ''Swap request rejected.'',
      d\<lparr> events :=
            map (\<lambda>e. if e_id e = ref_id (requester_event request) \<and> e_user_id e = uid
                      then e\<lparr>e_status := SWAPPABLE\<rparr> else e)
              (map (\<lambda>e. if e_id e = ref_id (owner_event request) \<and> e_user_id e = uid
                        then e\<lparr>e_status := SWAPPABLE\<rparr> else e)
                 (events d)),
          swap_requests :=
            map (\<lambda>r. if r_id r = v_id request \<and> r_owner_id r = uid
                      then r\<lparr>r_status := REJECTED\<rparr> else r)
                (swap_requests d) \<rparr>)"
  by (simp add: handleResponse_def update_events_status update_swap_requests_eq)

lemma listed_available:
  "slot \<in> set (fetchAvailableSlots uid d) \<Longrightarrow>
     e_status (fst slot) = SWAPPABLE \<and> e_user_id (fst slot) \<noteq> uid"
  by (auto simp: fetchAvailableSlots_def embed_profile_def)

lemma listed_mine:
  "e \<in> set (fetchMySwappableSlots uid d) \<Longrightarrow> e_status e = SWAPPABLE \<and> e_user_id e = uid"
  by (auto simp: fetchMySwappableSlots_def)

section \<open>Dashboard: creating an event\<close>

lemma eventSchema_accepts_iff:
  "(\<exists>data. eventSchema parse input = Inr data) =
     (1 \<le> length (trim (title input)) \<and> length (trim (title input)) \<le> 100
      \<and> startTime input \<noteq> [] \<and> endTime input \<noteq> []
      \<and> date_gt (parse (endTime input)) (parse (startTime input)))"
  by (auto simp: eventSchema_def Let_def Suc_le_eq)

lemma date_gt_iff: "date_gt x y = (\<exists>a b. x = Some a \<and> y = Some b \<and> b < a)"
  by (cases x; cases y) auto

text \<open>
  Claim C8. An event is created from the form only if the trimmed title has between 1
  and 100 characters and the end time, as a date, is strictly after the start time; an
  input that breaks one of these rules is rejected with validation errors on the form,
  and the database is left as it was. (The form also asks that neither time field is
  empty.)
\<close>

theorem event_form_validation:
  "(fst (handleSubmit parse uid new_id input d) = Toast_success ''Event created successfully'' \<longrightarrow>
      1 \<le> length (trim (title input)) \<and> length (trim (title input)) \<le> 100
      \<and> (\<exists>s e. parse (startTime input) = Some s \<and> parse (endTime input) = Some e \<and> s < e))
   \<and> (\<not> (1 \<le> length (trim (title input)) \<and> length (trim (title input)) \<le> 100
          \<and> (\<exists>s e. parse (startTime input) = Some s \<and> parse (endTime input) = Some e \<and> s < e)) \<longrightarrow>
      (\<exists>issues. issues \<noteq> [] \<and> handleSubmit parse uid new_id input d = (Form_errors issues, d)))"
proof (cases "eventSchema parse input")
  case (Inl issues)
  then have "issues \<noteq> []"
    by (auto simp: eventSchema_def Let_def split: if_splits)
  with Inl show ?thesis
    by (simp add: handleSubmit_def)
next
  case (Inr data)
  then have "\<exists>data. eventSchema parse input = Inr data"
    by blast
  then show ?thesis
    unfolding eventSchema_accepts_iff date_gt_iff by blast
qed

text \<open>
  Alice submits a title that trims to one character with the end after the start, and
  the event is stored; a blank title, and an end before the start, are turned down.
\<close>

theorem event_form_validation_witness:
  "handleSubmit read_digit 1 30
       \<lparr>title = [0x20, 0x41, 0x20], startTime = [0x31], endTime = [0x32]\<rparr> db_swappable
     = (Toast_success ''Event created successfully'',
        db_swappable\<lparr>events := [slot_a, slot_b,
           \<lparr>e_id = 30, e_user_id = 1, e_title = [0x41], e_start_time = 1, e_end_time = 2,
             e_status = BUSY\<rparr>]\<rparr>)
   \<and> length (trim [0x20, 0x41, 0x20]) = 1
   \<and> handleSubmit read_digit 1 30
       \<lparr>title = [0x20], startTime = [0x31], endTime = [0x32]\<rparr> db_swappable
     = (Form_errors [Title_is_required], db_swappable)
   \<and> handleSubmit read_digit 1 30
       \<lparr>title = [0x41], startTime = [0x32], endTime = [0x31]\<rparr> db_swappable
     = (Form_errors [End_time_must_be_after_start_time], db_swappable)"
  using
    event_form_validation [of read_digit 1 30
      "\<lparr>title = [0x20, 0x41, 0x20], startTime = [0x31], endTime = [0x32]\<rparr>" db_swappable]
    event_form_validation [of read_digit 1 30
      "\<lparr>title = [0x20], startTime = [0x31], endTime = [0x32]\<rparr>" db_swappable]
    event_form_validation [of read_digit 1 30
      "\<lparr>title = [0x41], startTime = [0x32], endTime = [0x31]\<rparr>" db_swappable]
  by (simp add: handleSubmit_def eventSchema_def onSubmit_def insert_event_def new_event_def
      policy_defs valid_time_range_def trim_def is_white_space_def read_digit_def
      profile_ids_def event_ids_def scenario_defs)

text \<open>
  Claim C10. Every event that \<open>onSubmit\<close> creates enters the database with status
  \<open>BUSY\<close>, whatever the form held: on success the table has one more row, with the
  generated id, the acting user as owner and status \<open>BUSY\<close>. The column's default, used
  when an insert names no status, is \<open>BUSY\<close> as well.
\<close>

theorem created_event_is_busy:
  "(fst (onSubmit parse uid new_id data d) = Toast_success ''Event created successfully'' \<longrightarrow>
     (\<exists>row. events (snd (onSubmit parse uid new_id data d)) = events d @ [row]
          \<and> e_id row = new_id \<and> e_user_id row = uid \<and> e_status row = BUSY))
   \<and> (i_status p = None \<longrightarrow> e_status (new_event new_id p) = BUSY)"
  by (auto simp: onSubmit_def insert_event_def new_event_def Let_def
      split: option.splits if_splits)

theorem created_event_is_busy_witness:
  "onSubmit read_digit 1 30 \<lparr>title = [0x41], startTime = [0x31], endTime = [0x32]\<rparr> db_swappable
     = (Toast_success ''Event created successfully'',
        db_swappable\<lparr>events := [slot_a, slot_b,
           \<lparr>e_id = 30, e_user_id = 1, e_title = [0x41], e_start_time = 1, e_end_time = 2,
             e_status = BUSY\<rparr>]\<rparr>)
   \<and> e_status (new_event 30 \<lparr>i_user_id = 1, i_title = [0x41], i_start_time = 1, i_end_time = 2,
                              i_status = None\<rparr>) = BUSY"
  using created_event_is_busy [of read_digit 1 30
      "\<lparr>title = [0x41], startTime = [0x31], endTime = [0x32]\<rparr>" db_swappable
      "\<lparr>i_user_id = 1, i_title = [0x41], i_start_time = 1, i_end_time = 2, i_status = None\<rparr>"]
  by (simp add: onSubmit_def insert_event_def new_event_def policy_defs valid_time_range_def
      read_digit_def profile_ids_def event_ids_def scenario_defs)

section \<open>Dashboard: offering, withdrawing and deleting an event\<close>



text \<open>
  Claim C7, as the code has it. \<open>deleteEvent\<close> looks at no status and knows no
  InvalidState: for an event that the acting user owns it removes the row, whatever the
  status, \<open>SWAP_PENDING\<close> included, and with it the swap requests that name the event, and
  reports success. The guard is on the card: its delete button is disabled while the
  card's event is \<open>SWAP_PENDING\<close>, so a click there removes nothing and reports nothing;
  otherwise the click is \<open>deleteEvent\<close>.
\<close>

theorem deleteEvent_ignores_status:
  assumes "ev \<in> set (events d)" and "e_user_id ev = uid"
    and "distinct (map e_id (events d))"
  shows "deleteEvent uid (e_id ev) d =
           (Toast_success ''Event deleted'',
            d\<lparr> events := removeAll ev (events d),
                swap_requests :=
                  filter (\<lambda>r. r_requester_event_id r \<noteq> e_id ev \<and> r_owner_event_id r \<noteq> e_id ev)
                         (swap_requests d) \<rparr>)
       \<and> delete_button uid ev d =
           (if e_status ev = SWAP_PENDING then (No_feedback, d) else deleteEvent uid (e_id ev) d)"
proof -
  have "filter (\<lambda>e. \<not> (e_id e = e_id ev \<and> e_user_id e = uid)) (events d)
          = removeAll ev (events d)"
    using assms
    by (auto simp: removeAll_filter_not_eq intro!: filter_cong dest: same_id_same_row)
  moreover have "\<exists>e \<in> set (events d). e_id e = e_id ev \<and> e_user_id e = uid"
    using assms by blast
  ultimately show ?thesis
    by (simp add: deleteEvent_eq delete_button_def)
qed

text \<open>
  The claim as the specification states it fails: Alice's slot is \<open>SWAP_PENDING\<close> in
  \<open>db_requested\<close>, and \<open>deleteEvent\<close> removes it, and her request with it, and reports
  success.
\<close>

theorem deleteEvent_removes_pending_event:
  "slot_a\<lparr>e_status := SWAP_PENDING\<rparr> \<in> set (events db_requested)
   \<and> deleteEvent 1 10 db_requested =
       (Toast_success ''Event deleted'',
        \<lparr> profiles = [alice, bob], events = [slot_b], swap_requests = [] \<rparr>)"
  by (simp add: deleteEvent_eq scenario_defs)

theorem deleteEvent_ignores_status_witness:
  "deleteEvent 2 20 db_requested =
       (Toast_success ''Event deleted'',
        \<lparr> profiles = [alice, bob], events = [slot_a\<lparr>e_status := SWAP_PENDING\<rparr>],
          swap_requests = [] \<rparr>)
   \<and> delete_button 2 slot_b db_requested = deleteEvent 2 20 db_requested
   \<and> delete_button 1 (slot_a\<lparr>e_status := SWAP_PENDING\<rparr>) db_requested
       = (No_feedback, db_requested)"
  using deleteEvent_ignores_status [of slot_b db_requested 2]
    deleteEvent_ignores_status [of "slot_a\<lparr>e_status := SWAP_PENDING\<rparr>" db_requested 1]
  by (simp add: scenario_defs)

section \<open>Marketplace\<close>

lemma select_then_filter:
  "filter (\<lambda>e. e_user_id e \<noteq> uid) (filter (\<lambda>e. e_status e = SWAPPABLE) (select_events uid d))
     = filter (\<lambda>e. e_status e = SWAPPABLE \<and> e_user_id e \<noteq> uid) (events d)"
  by (auto simp: select_events_def policy_defs intro!: filter_cong)

text \<open>
  Claim C9. For every user and every database, the marketplace query returns exactly
  the events whose status is \<open>SWAPPABLE\<close> and whose owner is another profile: the rows of
  the whole table with that property, ordered by start time, none of them hidden by the
  policies. And the events of other profiles that a user can read at all are the
  \<open>SWAPPABLE\<close> ones.
\<close>

theorem fetchAvailableSlots_exact:
  "map fst (fetchAvailableSlots uid d)
     = sort_key e_start_time
         (filter (\<lambda>e. e_status e = SWAPPABLE \<and> e_user_id e \<noteq> uid) (events d))
   \<and> fst ` set (fetchAvailableSlots uid d)
     = {e \<in> set (events d). e_status e = SWAPPABLE \<and> e_user_id e \<noteq> uid}
   \<and> {e \<in> set (select_events uid d). e_user_id e \<noteq> uid}
     = {e \<in> set (events d). e_status e = SWAPPABLE \<and> e_user_id e \<noteq> uid}"
proof -
  have 1: "map fst (fetchAvailableSlots uid d)
     = sort_key e_start_time
         (filter (\<lambda>e. e_status e = SWAPPABLE \<and> e_user_id e \<noteq> uid) (events d))"
    unfolding fetchAvailableSlots_def select_then_filter
    by (simp add: embed_profile_def o_def)
  have "fst ` set (fetchAvailableSlots uid d) = set (map fst (fetchAvailableSlots uid d))"
    by simp
  also have "\<dots> = {e \<in> set (events d). e_status e = SWAPPABLE \<and> e_user_id e \<noteq> uid}"
    unfolding 1 by auto
  finally have 2: "fst ` set (fetchAvailableSlots uid d)
     = {e \<in> set (events d). e_status e = SWAPPABLE \<and> e_user_id e \<noteq> uid}" .
  have 3: "{e \<in> set (select_events uid d). e_user_id e \<noteq> uid}
     = {e \<in> set (events d). e_status e = SWAPPABLE \<and> e_user_id e \<noteq> uid}"
    by (auto simp: select_events_def policy_defs)
  from 1 2 3 show ?thesis by blast
qed

text \<open>Once Alice's slot is pending, she is offered Bob's slot and Bob is offered nothing.\<close>

theorem fetchAvailableSlots_exact_witness:
  "fetchAvailableSlots 1 db_requested = [(slot_b, Some bob)]
   \<and> fetchAvailableSlots 2 db_requested = []"
  using fetchAvailableSlots_exact [of 1 db_requested] fetchAvailableSlots_exact [of 2 db_requested]
  by (simp add: fetchAvailableSlots_def select_events_def policy_defs embed_profile_def
      scenario_defs)

text \<open>
  Claim C3, as the code has it. \<open>requestSwap\<close> checks neither the status of the two
  events nor that requester and owner differ, and knows no InvalidState or SelfSwap. It
  fails exactly when the database turns the new request row down, because the generated
  id is taken or because the requester's or the owner's profile or one of the two events
  does not exist, and then the database is unchanged; in every other case it reports
  success and has stored a \<open>PENDING\<close> request for the pair. What stands in for the
  preconditions is the listing: the page offers as targets only \<open>SWAPPABLE\<close> events of
  other profiles, and as the user's own offer only \<open>SWAPPABLE\<close> events of the user, as
  they were when the lists were loaded.
\<close>

theorem requestSwap_checks_references_only:
  "(new_id \<notin> r_id ` set (swap_requests d) \<and> uid \<in> profile_ids d
      \<and> e_user_id (fst slot) \<in> profile_ids d
      \<and> myEventId \<in> event_ids d \<and> e_id (fst slot) \<in> event_ids d \<longrightarrow>
        fst (requestSwap uid new_id (Some slot) myEventId d) = Toast_success ''Swap request sent!''
        \<and> swap_requests (snd (requestSwap uid new_id (Some slot) myEventId d)) =
            swap_requests d @
              [\<lparr> r_id = new_id, r_requester_id = uid, r_requester_event_id = myEventId,
                 r_owner_id = e_user_id (fst slot), r_owner_event_id = e_id (fst slot),
                 r_status = PENDING \<rparr>])
   \<and> (\<not> (new_id \<notin> r_id ` set (swap_requests d) \<and> uid \<in> profile_ids d
          \<and> e_user_id (fst slot) \<in> profile_ids d
          \<and> myEventId \<in> event_ids d \<and> e_id (fst slot) \<in> event_ids d) \<longrightarrow>
        fst (requestSwap uid new_id (Some slot) myEventId d)
          \<in> {Toast_error_of Unique_violation, Toast_error_of Foreign_key_violation}
        \<and> snd (requestSwap uid new_id (Some slot) myEventId d) = d)
   \<and> (slot \<in> set (fetchAvailableSlots uid d) \<longrightarrow>
        e_status (fst slot) = SWAPPABLE \<and> e_user_id (fst slot) \<noteq> uid)
   \<and> (mine \<in> set (fetchMySwappableSlots uid d) \<longrightarrow>
        e_status mine = SWAPPABLE \<and> e_user_id mine = uid)"
  using listed_available [of slot uid d] listed_mine [of mine uid d]
  by (simp add: requestSwap_eq insert_swap_request_own)

text \<open>
  The claim as the specification states it fails twice. Alice's slot is \<open>BUSY\<close> and she
  offers it for Bob's: the request is stored and her slot becomes \<open>SWAP_PENDING\<close>. And
  Alice asks for her own slot against itself: the request, with Alice as requester and
  as owner, is stored.
\<close>

theorem requestSwap_accepts_busy_and_self:
  "requestSwap 1 100 (Some (slot_b, Some bob)) 10
       (db_swappable\<lparr>events := [slot_a\<lparr>e_status := BUSY\<rparr>, slot_b]\<rparr>)
     = (Toast_success ''Swap request sent!'', db_requested)
   \<and> requestSwap 1 100 (Some (slot_a, Some alice)) 10 db_swappable
     = (Toast_success ''Swap request sent!'',
        \<lparr> profiles = [alice, bob], events = [slot_a\<lparr>e_status := SWAP_PENDING\<rparr>, slot_b],
          swap_requests = [\<lparr> r_id = 100, r_requester_id = 1, r_requester_event_id = 10,
                             r_owner_id = 1, r_owner_event_id = 10, r_status = PENDING \<rparr>] \<rparr>)"
  by (simp add: requestSwap_eq insert_swap_request_own profile_ids_def event_ids_def
      scenario_defs)

theorem requestSwap_checks_references_only_witness:
  "fst (requestSwap 1 100 (Some (slot_b, Some bob)) 10 db_swappable)
     = Toast_success ''Swap request sent!''
   \<and> swap_requests (snd (requestSwap 1 100 (Some (slot_b, Some bob)) 10 db_swappable))
     = [request_100]
   \<and> requestSwap 1 100 (Some (slot_b, Some bob)) 99 db_swappable
     = (Toast_error_of Foreign_key_violation, db_swappable)
   \<and> requestSwap 1 100 (Some (slot_b, Some bob)) 10 db_requested
     = (Toast_error_of Unique_violation, db_requested)
   \<and> fetchAvailableSlots 1 db_swappable = [(slot_b, Some bob)]
   \<and> fetchMySwappableSlots 1 db_swappable = [slot_a]"
  using
    requestSwap_checks_references_only [of 100 db_swappable 1 "(slot_b, Some bob)" 10 slot_a]
    requestSwap_checks_references_only [of 100 db_swappable 1 "(slot_b, Some bob)" 99 slot_a]
    requestSwap_checks_references_only [of 100 db_requested 1 "(slot_b, Some bob)" 10 slot_a]
  by (simp add: requestSwap_eq insert_swap_request_own profile_ids_def event_ids_def
      fetchAvailableSlots_def fetchMySwappableSlots_def select_events_def embed_profile_def
      policy_defs scenario_defs)

section \<open>Requests: accepting and rejecting\<close>

text \<open>
  Claim C1. Accepting a pending request should exchange the owning profiles of the two
  events, make both events \<open>BUSY\<close> and the request \<open>ACCEPTED\<close>. The accept branch of
  \<open>handleResponse\<close> writes the id of the requester's \<^emph>\<open>event\<close> into the \<open>user_id\<close> of the
  owner's event, where the requester's profile id belongs. Run on the scenario: Alice's
  request goes through and leaves \<open>db_requested\<close>; when Bob accepts it, the first update
  would give his slot an owner other than himself, which the update policy of \<open>events\<close>
  refuses, so the handler reports the error and nothing has changed: both slots keep
  their owners and statuses and the request stays \<open>PENDING\<close>. The same happens from the
  state in which both slots are \<open>SWAP_PENDING\<close>.
\<close>

theorem accept_exchanges_nothing:
  "requestSwap 1 100 (Some (slot_b, Some bob)) 10 db_swappable
     = (Toast_success ''Swap request sent!'', db_requested)
   \<and> handleResponse 2 incoming True db_requested = (Toast_error_of Rls_violation, db_requested)
   \<and> handleResponse 2 incoming True db_both_pending
       = (Toast_error_of Rls_violation, db_both_pending)"
  by (simp add: requestSwap_eq insert_swap_request_own handleResponse_def update_events_def
      event_updatable_iff apply_event_update_def policy_defs profile_ids_def event_ids_def
      scenario_defs)

text \<open>
  Claim C5. Rejecting a pending request should return both events to \<open>SWAPPABLE\<close>, make
  the request \<open>REJECTED\<close> and leave the owners alone. The reject branch of
  \<open>handleResponse\<close> sends the update for both events, but it runs as the owner of the
  request, and the update policy of \<open>events\<close> lets a user change their own rows only: the
  update of the requester's event touches no row and raises no error. Run on the
  scenario, from the state that \<open>requestSwap\<close> leaves and from the state with both slots
  \<open>SWAP_PENDING\<close>: Bob rejects, the request becomes \<open>REJECTED\<close>, Bob's slot is
  \<open>SWAPPABLE\<close>, the handler reports the rejection as done, and Alice's slot is still
  \<open>SWAP_PENDING\<close>.
\<close>

theorem reject_leaves_requester_event_pending:
  "handleResponse 2 incoming False db_requested
     = (Toast_info ''Swap request rejected.'',
        \<lparr> profiles = [alice, bob], events = [slot_a\<lparr>e_status := SWAP_PENDING\<rparr>, slot_b],
          swap_requests = [request_100\<lparr>r_status := REJECTED\<rparr>] \<rparr>)
   \<and> handleResponse 2 incoming False db_both_pending
     = (Toast_info ''Swap request rejected.'',
        \<lparr> profiles = [alice, bob], events = [slot_a\<lparr>e_status := SWAP_PENDING\<rparr>, slot_b],
          swap_requests = [request_100\<lparr>r_status := REJECTED\<rparr>] \<rparr>)"
  by (simp add: reject_eq scenario_defs)

section \<open>Operations on several records\<close>

text \<open>
  The database itself can refuse \<open>requestSwap\<close> at its first call only, the insert of the
  request row, and it never refuses a call of the reject branch of \<open>handleResponse\<close>.
\<close>

lemma requestSwap_refused_unchanged:
  "(fst (requestSwap uid new_id selectedSlot myEventId d) \<noteq> Toast_success ''Swap request sent!'' \<longrightarrow>
      snd (requestSwap uid new_id selectedSlot myEventId d) = d)
   \<and> fst (handleResponse uid request False d) = Toast_info ''Swap request rejected.''"
proof (cases selectedSlot)
  case None
  then show ?thesis
    by (simp add: requestSwap_def reject_eq)
next
  case (Some slot)
  then show ?thesis
    by (simp add: requestSwap_eq reject_eq split: sum.splits)
qed

text \<open>
  Claim C4. An operation on several records should be atomic: either all of its record
  updates are applied, or the caller sees a failure and no record has changed.
  \<open>requestSwap\<close> sets out to write three records, the request row and the status of both
  events (its comment reads "Update both events to SWAP_PENDING"). It runs as the
  requester, and the update policy of \<open>events\<close> lets a user change their own rows only:
  the update of the owner's event touches no row and raises no error. Run on the
  scenario: \<open>requestSwap\<close> reports success, the request is stored and Alice's slot is
  \<open>SWAP_PENDING\<close>, but Bob's slot is still \<open>SWAPPABLE\<close>. The operation is applied in part
  and reported as done.
\<close>

theorem requestSwap_partial_success:
  "fst (requestSwap 1 100 (Some (slot_b, Some bob)) 10 db_swappable)
     = Toast_success ''Swap request sent!''
   \<and> swap_requests (snd (requestSwap 1 100 (Some (slot_b, Some bob)) 10 db_swappable))
     = [request_100]
   \<and> events (snd (requestSwap 1 100 (Some (slot_b, Some bob)) 10 db_swappable))
     = [slot_a\<lparr>e_status := SWAP_PENDING\<rparr>, slot_b]
   \<and> e_status slot_b = SWAPPABLE"
  by (simp add: requestSwap_eq insert_swap_request_own profile_ids_def event_ids_def
      scenario_defs)

section \<open>The invariant\<close>

text \<open>
  Two operations keep the invariant whatever the state: \<open>toggleSwappable\<close> on a stored
  event, known by its id, and \<open>deleteEvent\<close> of an event that no \<open>PENDING\<close> request
  names.
\<close>

lemma swap_invariant_iff:
  "swap_invariant d =
     (\<forall>e \<in> set (events d). (e_status e = SWAP_PENDING) = (length (pending_refs d (e_id e)) = 1))"
  by (simp add: swap_invariant_def list_all_iff)

lemma pending_refs_events_update [simp]:
  "pending_refs (d\<lparr>events := xs\<rparr>) x = pending_refs d x"
  by (simp add: pending_refs_def)

lemma toggle_preserves:
  assumes inv: "swap_invariant d" and ev: "ev \<in> set (events d)"
    and pk: "distinct (map e_id (events d))"
  shows "swap_invariant (snd (toggleSwappable uid ev d))"
proof (cases "e_status ev = SWAP_PENDING")
  case True
  with inv show ?thesis by (simp add: toggleSwappable_eq)
next
  case False
  define new where "new = (if e_status ev = BUSY then SWAPPABLE else BUSY)"
  define f :: "event \<Rightarrow> event"
    where "f = (\<lambda>e. if e_id e = e_id ev \<and> e_user_id e = uid then e\<lparr>e_status := new\<rparr> else e)"
  have new: "new \<noteq> SWAP_PENDING"
    by (simp add: new_def)
  have "(e_status (f e) = SWAP_PENDING) = (length (pending_refs d (e_id (f e))) = 1)"
    if e: "e \<in> set (events d)" for e
  proof (cases "e_id e = e_id ev \<and> e_user_id e = uid")
    case True
    then have "e = ev"
      using same_id_same_row [OF pk e ev] by simp
    moreover from inv ev False have "length (pending_refs d (e_id ev)) \<noteq> 1"
      by (simp add: swap_invariant_iff)
    ultimately show ?thesis
      using True new by (simp add: f_def)
  next
    case False
    with inv e show ?thesis
      by (auto simp: f_def swap_invariant_iff)
  qed
  then have "swap_invariant (d\<lparr>events := map f (events d)\<rparr>)"
    by (simp add: swap_invariant_iff)
  moreover have "snd (toggleSwappable uid ev d) = d\<lparr>events := map f (events d)\<rparr>"
    using False by (simp add: toggleSwappable_eq f_def new_def)
  ultimately show ?thesis by simp
qed

lemma delete_preserves:
  assumes inv: "swap_invariant d" and none: "pending_refs d eventId = []"
  shows "swap_invariant (snd (deleteEvent uid eventId d))"
proof -
  have "filter (\<lambda>r. r_status r = PENDING
                  \<and> (r_requester_event_id r = x \<or> r_owner_event_id r = x))
          (filter (\<lambda>r. r_requester_event_id r \<noteq> eventId \<and> r_owner_event_id r \<noteq> eventId)
             (swap_requests d))
        = pending_refs d x" for x
    using none unfolding pending_refs_def filter_filter
    by (intro filter_cong) (auto simp: filter_empty_conv)
  then have "pending_refs (snd (deleteEvent uid eventId d)) x = pending_refs d x" for x
    by (simp add: deleteEvent_eq pending_refs_def)
  with inv show ?thesis
    by (auto simp: swap_invariant_iff deleteEvent_eq)
qed

text \<open>
  Claim C2. In every reachable state an event should be \<open>SWAP_PENDING\<close> exactly when one
  \<open>PENDING\<close> request names it, and every operation should keep it so. The invariant holds
  in \<open>db_swappable\<close>. One ordinary request, Alice's for Bob's slot, leaves \<open>db_requested\<close>:
  there the one \<open>PENDING\<close> request names Bob's slot, and Bob's slot is still \<open>SWAPPABLE\<close>,
  because the update that was to make it \<open>SWAP_PENDING\<close> (the code's comment: "Update both
  events to SWAP_PENDING") runs as Alice and touches no row. So the invariant is broken
  in a reachable state, by \<open>requestSwap\<close>. The reject branch of \<open>handleResponse\<close> breaks it
  in the same way: from \<open>db_both_pending\<close>, where the invariant holds, Bob's rejection
  leaves Alice's slot \<open>SWAP_PENDING\<close> with no \<open>PENDING\<close> request on it.
\<close>

theorem invariant_broken_by_one_request:
  "swap_invariant db_swappable
   \<and> requestSwap 1 100 (Some (slot_b, Some bob)) 10 db_swappable
       = (Toast_success ''Swap request sent!'', db_requested)
   \<and> \<not> swap_invariant db_requested
   \<and> swap_invariant db_both_pending
   \<and> \<not> swap_invariant (snd (handleResponse 2 incoming False db_both_pending))"
  by (simp add: swap_invariant_def pending_refs_def requestSwap_eq insert_swap_request_own
      reject_eq profile_ids_def event_ids_def scenario_defs)

end
